theory Spec2Isabelle
  imports Main
begin

section \<open>Package process: launching external commands\<close>

text \<open>
  A shallow embedding of the Go package \<open>process\<close> (Execute, ExecuteInDir,
  LoggedExecuteInDir, ExecuteAsync, ExecuteAsyncInDir, ExecuteString) together with the
  parts of the Go runtime the package calls: \<open>fmt.Errorf\<close>, \<open>strings.Split\<close>,
  \<open>bytes.Buffer\<close>, \<open>io.MultiWriter\<close> and \<open>os/exec\<close>. The operating system is a
  parameter of the model: a function that says, for each invocation, whether the process
  starts, what it prints and how it exits.
\<close>

subsection \<open>Bytes and errors\<close>

text \<open>Go's \<open>[]byte\<close> and \<open>string\<close> are both sequences of bytes; a HOL \<open>char\<close> is a byte.\<close>

type_synonym bytes = string

text \<open>
  A Go \<open>error\<close> value. \<open>OSError\<close> is an error produced below the package (by \<open>os/exec\<close>,
  the kernel, or a writer), known by its message. \<open>ErrorString\<close> is what \<open>fmt.Errorf\<close>
  returns for a format without \<open>%w\<close>, \<open>WrapError\<close> what it returns for a format with
  \<open>%w\<close>: the formatted message and the wrapped error.
\<close>

datatype error = OSError string | ErrorString string | WrapError string error

fun Error :: "error \<Rightarrow> string" where
  "Error (OSError m) = m"
| "Error (ErrorString m) = m"
| "Error (WrapError m e) = m"

fun Unwrap :: "error \<Rightarrow> error option" where
  "Unwrap (WrapError m e) = Some e"
| "Unwrap e = None"

definition ErrShortWrite :: error where
  "ErrShortWrite = OSError ''short write''"

definition errInvalidWrite :: error where
  "errInvalidWrite = OSError ''invalid write result''"

subsection \<open>strings.Split\<close>

text \<open>
  \<open>strings.Split(s, sep)\<close> for a one-byte separator: while \<open>sep\<close> occurs in \<open>s\<close>, cut
  \<open>s\<close> at its first occurrence; the rest of \<open>s\<close> is the last element. The result has
  one element more than \<open>s\<close> has separators.
\<close>

function strings_Split :: "string \<Rightarrow> char \<Rightarrow> string list" where
  "strings_Split s sep =
     (if sep \<in> set s
      then takeWhile (\<lambda>c. c \<noteq> sep) s # strings_Split (tl (dropWhile (\<lambda>c. c \<noteq> sep) s)) sep
      else [s])"
  by pat_completeness auto
termination
proof (relation "measure (\<lambda>(s, sep). length s)")
  show "wf (measure (\<lambda>(s, sep). length s))" by simp
next
  fix s :: string and sep :: char
  assume "sep \<in> set s"
  then have "dropWhile (\<lambda>c. c \<noteq> sep) s \<noteq> []" by auto
  then have "length (tl (dropWhile (\<lambda>c. c \<noteq> sep) s)) < length (dropWhile (\<lambda>c. c \<noteq> sep) s)"
    by simp
  also have "\<dots> \<le> length s" by (rule length_dropWhile_le)
  finally show "((tl (dropWhile (\<lambda>c. c \<noteq> sep) s), sep), (s, sep)) \<in> measure (\<lambda>(s, sep). length s)"
    by simp
qed

declare strings_Split.simps [simp del]

subsection \<open>Writers\<close>

text \<open>
  An \<open>io.Writer\<close> is an object with a method \<open>Write(p) (n, err)\<close>. Here it is a function
  on the state \<open>'s\<close> of the objects it writes to.
\<close>

type_synonym 's io_Writer = "bytes \<Rightarrow> 's \<Rightarrow> (nat \<times> error option) \<times> 's"

text \<open>\<open>bytes.Buffer.Write\<close> appends \<open>p\<close> and returns \<open>len(p), nil\<close>.\<close>

definition Buffer_Write :: "bytes io_Writer" where
  "Buffer_Write p buffer = ((length p, None), buffer @ p)"

text \<open>
  The writer a caller passes to LoggedExecuteInDir is any \<open>io.Writer\<close>. \<open>calls\<close> is
  the sequence of byte slices its \<open>Write\<close> method has been called with; \<open>respond\<close>
  is what the method answers, given the earlier calls and the slice: the number of bytes
  it wrote and an error; \<open>written\<close> is the bytes it wrote, that many of each slice.
\<close>

record sink =
  calls :: "bytes list"
  written :: bytes
  respond :: "bytes list \<Rightarrow> bytes \<Rightarrow> nat \<times> error option"

definition sink_Write :: "sink io_Writer" where
  "sink_Write p s =
     (respond s (calls s) p,
      s\<lparr>calls := calls s @ [p], written := written s @ take (fst (respond s (calls s) p)) p\<rparr>)"

text \<open>
  \<open>io.MultiWriter(w1, w2)\<close>: each \<open>Write\<close> goes to the writers one at a time, in the
  order given; an error stops it, and so does a writer that takes fewer bytes than it
  was given (\<open>io.ErrShortWrite\<close>).
\<close>

definition MultiWriter :: "'a io_Writer \<Rightarrow> 'b io_Writer \<Rightarrow> ('a \<times> 'b) io_Writer" where
  "MultiWriter w1 w2 p s =
     (case s of (a, b) \<Rightarrow>
        (case w1 p a of ((n, err), a') \<Rightarrow>
           if err \<noteq> None then ((n, err), (a', b))
           else if n \<noteq> length p then ((n, Some ErrShortWrite), (a', b))
           else (case w2 p b of ((n, err), b') \<Rightarrow>
              if err \<noteq> None then ((n, err), (a', b'))
              else if n \<noteq> length p then ((n, Some ErrShortWrite), (a', b'))
              else ((length p, None), (a', b')))))"

subsection \<open>The operating system\<close>

text \<open>
  What the operating system is asked to run: the program, the argument vector (the
  program's name first), the working directory (empty: the caller's) and the environment.
\<close>

record invocation =
  program :: string
  argv :: "string list"
  workdir :: string
  environ :: "string list"

text \<open>
  A started process: what it writes to its standard output and standard error, in the
  order it writes it and in the chunks in which \<open>os/exec\<close> reads it, and how it ends
  (\<open>None\<close>: exit status 0; \<open>Some e\<close>: the \<open>*exec.ExitError\<close> of a non-zero
  status or a signal).
\<close>

datatype fd = fd_stdout | fd_stderr

record proc =
  emits :: "(fd \<times> bytes) list"
  status :: "error option"

datatype outcome = StartError error | Started proc

text \<open>
  The state outside a call: the package variable \<open>GoEnviron\<close>, the environment of the
  running program (\<open>os.Environ()\<close>), the absolute form of a path in its current
  directory (\<open>filepath.Abs\<close>; \<open>None\<close> when the current directory cannot be read),
  what starting each invocation leads to (the program is not found or cannot be started,
  or the process it becomes), and the invocations that \<open>Start\<close> has been called with
  so far.
\<close>

record world =
  GoEnviron :: "string list"
  os_Environ :: "string list"
  filepath_Abs :: "string \<Rightarrow> string option"
  os_StartProcess :: "invocation \<Rightarrow> outcome"
  attempts :: "invocation list"

text \<open>
  The key of an environment entry, as \<open>os/exec\<close> reads it: what stands before the
  first \<open>=\<close>; for an entry that begins with \<open>=\<close>, what stands before the next
  one, or nothing if there is none. An entry without \<open>=\<close> has no key.
\<close>

definition env_key :: "string \<Rightarrow> string option" where
  "env_key kv =
     (if CHR ''='' \<notin> set kv then None
      else if hd kv = CHR ''='' then
        (if CHR ''='' \<in> set (tl kv)
         then Some (CHR ''='' # takeWhile (\<lambda>c. c \<noteq> CHR ''='') (tl kv))
         else Some [])
      else Some (takeWhile (\<lambda>c. c \<noteq> CHR ''='') kv))"

text \<open>
  The value a process sees for a key when its environment lists the key more than once:
  the last entry wins. Entries without \<open>=\<close> define nothing.
\<close>

definition env_defines :: "string \<Rightarrow> string \<Rightarrow> bool" where
  "env_defines k kv \<longleftrightarrow> env_key kv = Some k"

fun lookup_env :: "string list \<Rightarrow> string \<Rightarrow> string option" where
  "lookup_env [] k = None"
| "lookup_env (kv # env) k =
     (case lookup_env env k of
        Some v \<Rightarrow> Some v
      | None \<Rightarrow> if env_defines k kv then Some (drop (Suc (length k)) kv) else None)"

text \<open>
  \<open>dedupEnv\<close> of \<open>os/exec\<close>: of the entries with the same key only the last is
  kept, in its place; entries without a key are kept, empty ones apart. \<open>os/exec\<close>
  refuses an entry with a NUL byte, and \<open>Start\<close> then fails; here such an entry is
  kept like any other, and the failure is an answer of \<open>os_StartProcess\<close>.
\<close>

fun dedupEnv :: "string list \<Rightarrow> string list" where
  "dedupEnv [] = []"
| "dedupEnv (kv # env) =
     (case env_key kv of
        None \<Rightarrow> (if kv = [] then dedupEnv env else kv # dedupEnv env)
      | Some k \<Rightarrow> (if Some k \<in> set (map env_key env) then dedupEnv env else kv # dedupEnv env))"

text \<open>
  When \<open>Env\<close> is nil and \<open>Dir\<close> is set, \<open>os/exec\<close> appends \<open>PWD\<close>, the
  absolute form of \<open>Dir\<close>, to the inherited environment.
\<close>

definition implicit_PWD :: "world \<Rightarrow> string \<Rightarrow> string list" where
  "implicit_PWD w dir =
     (if dir = [] then []
      else case filepath_Abs w dir of None \<Rightarrow> [] | Some pwd \<Rightarrow> [''PWD='' @ pwd])"

subsection \<open>exec.Cmd\<close>

text \<open>
  The fields of \<open>exec.Cmd\<close> the package touches. \<open>Env = None\<close> is the nil slice: the
  process then gets the environment of the running program. \<open>Stdout = None\<close> and
  \<open>Stderr = None\<close> are nil writers: the stream goes to the null device. \<open>Process\<close> is
  set by a successful \<open>Start\<close>, \<open>ProcessState\<close> by \<open>Wait\<close>.
\<close>

record 's Cmd =
  Path :: string
  Args :: "string list"
  Env :: "string list option"
  Dir :: string
  Stdout :: "'s io_Writer option"
  Stderr :: "'s io_Writer option"
  Process :: "proc option"
  ProcessState :: "error option option"

text \<open>
  \<open>exec.Command(name, arg...)\<close>. Finding \<open>name\<close> on the search path is left to
  \<open>os_StartProcess\<close>, which answers for the name as given: a name that is not found
  is a start error, as it is for the caller of \<open>Start\<close>, and so is the empty name
  (\<open>exec: no command\<close>).
\<close>

definition Command :: "string \<Rightarrow> string list \<Rightarrow> 's Cmd" where
  "Command name arg =
     \<lparr>Path = name, Args = name # arg, Env = None, Dir = [], Stdout = None, Stderr = None,
      Process = None, ProcessState = None\<rparr>"

text \<open>Go's \<open>append(s, xs...)\<close> on a slice that may be nil.\<close>

definition append_slice :: "string list option \<Rightarrow> string list \<Rightarrow> string list option" where
  "append_slice s xs =
     (case s of None \<Rightarrow> (if xs = [] then None else Some xs) | Some ys \<Rightarrow> Some (ys @ xs))"

text \<open>
  What \<open>Start\<close> hands on for a command. The environment is \<open>Env\<close>, or for a nil
  \<open>Env\<close> the inherited environment with the implicit \<open>PWD\<close>, and in both cases
  without the earlier entries of a key that is listed again.
\<close>

definition invocation_of :: "'s Cmd \<Rightarrow> world \<Rightarrow> invocation" where
  "invocation_of c w =
     \<lparr>program = Path c, argv = Args c, workdir = Dir c,
      environ = dedupEnv (case Env c of None \<Rightarrow> os_Environ w @ implicit_PWD w (Dir c) | Some e \<Rightarrow> e)\<rparr>"

text \<open>
  \<open>Start\<close> starts the command: it returns the start error, or \<open>None\<close> and the
  command with its process. The invocation is recorded in \<open>attempts\<close> either way.
\<close>

definition Start :: "'s Cmd \<Rightarrow> world \<Rightarrow> (error option \<times> 's Cmd) \<times> world" where
  "Start c w =
     (let i = invocation_of c w;
          w' = w\<lparr>attempts := attempts w @ [i]\<rparr>
      in case os_StartProcess w i of
           StartError e \<Rightarrow> ((Some e, c), w')
         | Started p \<Rightarrow> ((None, c\<lparr>Process := Some p\<rparr>), w'))"

text \<open>
  The copying \<open>os/exec\<close> does for a writer that is not a file (\<open>io.Copy\<close> from the
  process's pipe): each chunk is written to the writer of its stream, and the first failed
  or short write ends the copying. A nil writer discards the chunk. Where \<open>Stdout\<close> and
  \<open>Stderr\<close> hold the same writer, as everywhere in this package, one pipe and one
  copier serve both streams, so the writer sees the chunks of both in emission order.
\<close>

fun copy_output :: "'s Cmd \<Rightarrow> (fd \<times> bytes) list \<Rightarrow> 's \<Rightarrow> error option \<times> 's" where
  "copy_output c [] s = (None, s)"
| "copy_output c ((f, p) # rest) s =
     (case (case f of fd_stdout \<Rightarrow> Stdout c | fd_stderr \<Rightarrow> Stderr c) of
        None \<Rightarrow> copy_output c rest s
      | Some dst \<Rightarrow>
          (case dst p s of ((nw, ew), s') \<Rightarrow>
             if length p < nw then (Some (case ew of None \<Rightarrow> errInvalidWrite | Some e \<Rightarrow> e), s')
             else if ew \<noteq> None then (ew, s')
             else if length p \<noteq> nw then (Some ErrShortWrite, s')
             else copy_output c rest s'))"

text \<open>
  \<open>Wait\<close> waits for the process to exit and for the copying to end. The exit error of
  the process comes first; a copying error is reported only if the process exited with
  status 0.
\<close>

definition Wait :: "'s Cmd \<Rightarrow> 's \<Rightarrow> (error option \<times> 's Cmd) \<times> 's" where
  "Wait c s =
     (case Process c of
        None \<Rightarrow> ((Some (OSError ''exec: not started''), c), s)
      | Some p \<Rightarrow>
          (case copy_output c (emits p) s of (cerr, s') \<Rightarrow>
             ((case status p of Some e \<Rightarrow> Some e | None \<Rightarrow> cerr,
               c\<lparr>ProcessState := Some (status p)\<rparr>), s')))"

subsection \<open>The package\<close>

definition newline :: char where
  "newline = CHR 0x0A"

definition quote :: char where
  "quote = CHR 0x27"

text \<open>ExecuteInDir runs system command and returns whole output also in case of error in a specific directory.\<close>

definition ExecuteInDir :: "string \<Rightarrow> string \<Rightarrow> string list \<Rightarrow> world \<Rightarrow> (bytes \<times> error option) \<times> world" where
  "ExecuteInDir dir command arguments w =
     (let cmd = Command command arguments;
          cmd = (if dir \<noteq> [] then cmd\<lparr>Dir := dir\<rparr> else cmd);
          cmd = cmd\<lparr>Env := Some (os_Environ w)\<rparr>;
          cmd = cmd\<lparr>Env := append_slice (Env cmd) (GoEnviron w)\<rparr>;
          buffer = [];
          cmd = cmd\<lparr>Stdout := Some Buffer_Write\<rparr>;
          cmd = cmd\<lparr>Stderr := Some Buffer_Write\<rparr>
      in case Start cmd w of ((err, cmd), w') \<Rightarrow>
           (case err of
              Some e \<Rightarrow> ((buffer, Some (WrapError (''could not start process: '' @ Error e) e)), w')
            | None \<Rightarrow>
                (case Wait cmd buffer of ((err, cmd), buffer) \<Rightarrow>
                   (case err of
                      Some e \<Rightarrow>
                        ((buffer,
                          Some (WrapError (''process error: '' @ Error e @ [newline] @ ''output: '' @ buffer) e)),
                         w')
                    | None \<Rightarrow> ((buffer, None), w')))))"

text \<open>Execute runs system command and returns whole output also in case of error.\<close>

definition Execute :: "string \<Rightarrow> string list \<Rightarrow> world \<Rightarrow> (bytes \<times> error option) \<times> world" where
  "Execute command arguments w = ExecuteInDir [] command arguments w"

text \<open>
  LoggedExecuteInDir: as ExecuteInDir, with logging to \<open>writer\<close>. The writer is changed
  by the call, so it is returned too.
\<close>

definition LoggedExecuteInDir ::
  "string \<Rightarrow> sink \<Rightarrow> string \<Rightarrow> string list \<Rightarrow> world \<Rightarrow> (bytes \<times> error option) \<times> sink \<times> world" where
  "LoggedExecuteInDir dir writer command arguments w =
     (let cmd = Command command arguments;
          cmd = (if dir \<noteq> [] then cmd\<lparr>Dir := dir\<rparr> else cmd);
          buffer = [];
          mw = MultiWriter Buffer_Write sink_Write;
          cmd = cmd\<lparr>Stdout := Some mw\<rparr>;
          cmd = cmd\<lparr>Stderr := Some mw\<rparr>
      in case Start cmd w of ((err, cmd), w') \<Rightarrow>
           (case err of
              Some e \<Rightarrow>
                ((buffer, Some (WrapError (''could not start process: '' @ Error e) e)), writer, w')
            | None \<Rightarrow>
                (case Wait cmd (buffer, writer) of ((err, cmd), (buffer, writer)) \<Rightarrow>
                   (case err of
                      Some e \<Rightarrow> ((buffer, Some (WrapError (''process error: '' @ Error e) e)), writer, w')
                    | None \<Rightarrow> ((buffer, None), writer, w')))))"

text \<open>ExecuteAsyncInDir runs system command and doesn't wait when it's completed for specific directory.\<close>

definition ExecuteAsyncInDir ::
  "string \<Rightarrow> string \<Rightarrow> string list \<Rightarrow> world \<Rightarrow> ('s Cmd \<times> error option) \<times> world" where
  "ExecuteAsyncInDir dir command arguments w =
     (let cmd = Command command arguments;
          cmd = (if dir \<noteq> [] then cmd\<lparr>Dir := dir\<rparr> else cmd)
      in case Start cmd w of ((err, cmd), w') \<Rightarrow>
           (case err of
              Some e \<Rightarrow> ((cmd, Some (WrapError (''process error: '' @ Error e) e)), w')
            | None \<Rightarrow> ((cmd, None), w')))"

text \<open>ExecuteAsync runs system command and doesn't wait when it's completed.\<close>

definition ExecuteAsync :: "string \<Rightarrow> string list \<Rightarrow> world \<Rightarrow> ('s Cmd \<times> error option) \<times> world" where
  "ExecuteAsync command arguments w = ExecuteAsyncInDir [] command arguments w"

text \<open>
  ExecuteString executes string based command. \<open>ExecuteString_return\<close> is the end of
  its body (\<open>if err != nil\<close> and the return), \<open>ExecuteString_parts\<close> its body after
  the split, for any list of parts; \<open>out\<close> is still the nil slice in the last branch.
\<close>

definition ExecuteString_return :: "(bytes \<times> error option) \<times> world \<Rightarrow> (bytes \<times> error option) \<times> world" where
  "ExecuteString_return r =
     (case r of ((out, err), w') \<Rightarrow>
        (case err of
           Some e \<Rightarrow> ((out, Some (WrapError (''error: '' @ Error e @ '', output: '' @ out) e)), w')
         | None \<Rightarrow> ((out, None), w')))"

definition ExecuteString_parts :: "string \<Rightarrow> string list \<Rightarrow> world \<Rightarrow> (bytes \<times> error option) \<times> world" where
  "ExecuteString_parts command parts w =
     (if length parts = 1 then ExecuteString_return (Execute (parts ! 0) [] w)
      else if length parts > 1 then ExecuteString_return (Execute (parts ! 0) (drop 1 parts) w)
      else (([], Some (ErrorString (''invalid command to run '' @ [quote] @ command @ [quote]))), w))"

definition ExecuteString :: "string \<Rightarrow> world \<Rightarrow> (bytes \<times> error option) \<times> world" where
  "ExecuteString command w = ExecuteString_parts command (strings_Split command (CHR '' '')) w"

subsection \<open>Notions used to state the results\<close>

text \<open>Everything a process prints, standard output and standard error together.\<close>

definition output_of :: "proc \<Rightarrow> bytes" where
  "output_of p = concat (map snd (emits p))"

text \<open>
  A writer takes a slice when it answers \<open>len(p), nil\<close>. \<open>delivered s ps\<close> is the part of
  the chunks \<open>ps\<close> that is written when the writer \<open>s\<close> is the second target: the chunks
  up to and including the first that \<open>s\<close> does not take. \<open>logged s ps\<close> is \<open>s\<close> after
  these writes.
\<close>

definition takes :: "sink \<Rightarrow> bytes \<Rightarrow> bool" where
  "takes s p \<longleftrightarrow> respond s (calls s) p = (length p, None)"

fun delivered :: "sink \<Rightarrow> bytes list \<Rightarrow> bytes list" where
  "delivered s [] = []"
| "delivered s (p # ps) = p # (if takes s p then delivered (snd (sink_Write p s)) ps else [])"

fun logged :: "sink \<Rightarrow> bytes list \<Rightarrow> sink" where
  "logged s [] = s"
| "logged s (p # ps) = (if takes s p then logged (snd (sink_Write p s)) ps else snd (sink_Write p s))"

text \<open>The invocations that the blocking and the logged operations start.\<close>

definition ExecuteInDir_invocation :: "string \<Rightarrow> string \<Rightarrow> string list \<Rightarrow> world \<Rightarrow> invocation" where
  "ExecuteInDir_invocation dir command arguments w =
     \<lparr>program = command, argv = command # arguments, workdir = dir,
      environ = dedupEnv (os_Environ w @ GoEnviron w)\<rparr>"

definition inherited_invocation :: "string \<Rightarrow> string \<Rightarrow> string list \<Rightarrow> world \<Rightarrow> invocation" where
  "inherited_invocation dir command arguments w =
     \<lparr>program = command, argv = command # arguments, workdir = dir,
      environ = dedupEnv (os_Environ w @ implicit_PWD w dir)\<rparr>"

definition attempted :: "invocation \<Rightarrow> world \<Rightarrow> world" where
  "attempted i w = w\<lparr>attempts := attempts w @ [i]\<rparr>"

subsection \<open>An operating system and two writers, for concrete runs\<close>

text \<open>
  \<open>printenv K\<close> prints the value of \<open>K\<close> and exits with status 1 if \<open>K\<close> is not set;
  \<open>env\<close> prints its environment, an entry a line; \<open>echo\<close> prints its arguments; \<open>ls\<close> here is asked for a file that does not exist;
  \<open>make\<close> prints on both streams and fails; \<open>sleep\<close> prints nothing. No other
  program is installed.
\<close>

definition dquote :: char where
  "dquote = CHR 0x22"

fun echo_line :: "string list \<Rightarrow> string" where
  "echo_line [] = [newline]"
| "echo_line [a] = a @ [newline]"
| "echo_line (a # b # bs) = a @ '' '' @ echo_line (b # bs)"

fun env_lines :: "string list \<Rightarrow> string" where
  "env_lines [] = []"
| "env_lines (kv # env) = kv @ [newline] @ env_lines env"

definition example_os :: "invocation \<Rightarrow> outcome" where
  "example_os i =
     (if program i = ''printenv'' then
        (case lookup_env (environ i) (last (argv i)) of
           Some v \<Rightarrow> Started \<lparr>emits = [(fd_stdout, v @ [newline])], status = None\<rparr>
         | None \<Rightarrow> Started \<lparr>emits = [], status = Some (OSError ''exit status 1'')\<rparr>)
      else if program i = ''env'' then
        Started \<lparr>emits = [(fd_stdout, env_lines (environ i))], status = None\<rparr>
      else if program i = ''echo'' then
        Started \<lparr>emits = [(fd_stdout, echo_line (tl (argv i)))], status = None\<rparr>
      else if program i = ''ls'' then
        Started \<lparr>emits = [(fd_stderr, ''ls: '' @ last (argv i) @ '': No such file or directory'' @ [newline])],
                 status = Some (OSError ''exit status 2'')\<rparr>
      else if program i = ''make'' then
        Started \<lparr>emits = [(fd_stdout, ''cc -c main.c'' @ [newline]),
                          (fd_stderr, ''main.c:1: error'' @ [newline]),
                          (fd_stdout, ''make: failed'' @ [newline])],
                 status = Some (OSError ''exit status 2'')\<rparr>
      else if program i = ''sleep'' then Started \<lparr>emits = [], status = None\<rparr>
      else if program i = [] then StartError (OSError ''exec: no command'')
      else StartError (OSError (''exec: '' @ [dquote] @ program i @ [dquote] @
                                 '': executable file not found in $PATH'')))"

definition example_world :: world where
  "example_world =
     \<lparr>GoEnviron = [''MY_VAR=some_value'', ''HOME=/tmp''],
      os_Environ = [''PATH=/bin'', ''HOME=/root''],
      filepath_Abs = (\<lambda>d. Some (if hd d = CHR ''/'' then d else ''/home/hpk/'' @ d)),
      os_StartProcess = example_os,
      attempts = []\<rparr>"

text \<open>A writer that takes everything, and one that takes nothing (a closed pipe).\<close>

definition log_sink :: sink where
  "log_sink = \<lparr>calls = [], written = [], respond = (\<lambda>h p. (length p, None))\<rparr>"

definition closed_sink :: sink where
  "closed_sink =
     \<lparr>calls = [], written = [], respond = (\<lambda>h p. (0, Some (OSError ''io: read/write on closed pipe'')))\<rparr>"

section \<open>Properties\<close>

subsection \<open>strings.Split\<close>

text \<open>
  The equations of \<open>strings_Split\<close> by the first byte of the string, and what
  follows from them: the result is never empty, a separator between two strings
  separates their parts, and there is one part more than there are separators.
\<close>

lemma Split_Nil: "strings_Split [] sep = [[]]"
  by (simp add: strings_Split.simps)

lemma Split_Cons:
  "strings_Split (c # cs) sep =
     (if c = sep then [] # strings_Split cs sep
      else (c # hd (strings_Split cs sep)) # tl (strings_Split cs sep))"
  by (subst strings_Split.simps, subst (3 4) strings_Split.simps) auto

lemma Split_not_Nil: "strings_Split s sep \<noteq> []"
  by (subst strings_Split.simps) simp

lemma Split_append: "strings_Split (a @ sep # b) sep = strings_Split a sep @ strings_Split b sep"
  by (induction a) (auto simp: Split_Nil Split_Cons Split_not_Nil)

lemma Split_no_sep: "sep \<notin> set s \<Longrightarrow> strings_Split s sep = [s]"
  by (subst strings_Split.simps) simp

lemma Split_length: "length (strings_Split s sep) = Suc (length (filter (\<lambda>c. c = sep) s))"
  by (induction s) (auto simp: Split_Nil Split_Cons Split_not_Nil)

subsection \<open>Starting, copying and waiting\<close>

lemma Command_Dir:
  "(if dir \<noteq> [] then (Command command arguments)\<lparr>Dir := dir\<rparr> else Command command arguments) =
   (Command command arguments)\<lparr>Dir := dir\<rparr>"
  by (simp add: Command_def)

lemma Start_eq:
  "Start c w =
     (case os_StartProcess w (invocation_of c w) of
        StartError e \<Rightarrow> ((Some e, c), attempted (invocation_of c w) w)
      | Started p \<Rightarrow> ((None, c\<lparr>Process := Some p\<rparr>), attempted (invocation_of c w) w))"
  by (simp add: Start_def Let_def attempted_def split: outcome.splits)

lemma invocation_of_inherited:
  "invocation_of ((Command command arguments)\<lparr>Dir := dir, Stdout := out, Stderr := err\<rparr>) w =
     inherited_invocation dir command arguments w"
  "invocation_of ((Command command arguments)\<lparr>Dir := dir\<rparr>) w =
     inherited_invocation dir command arguments w"
  by (simp_all add: invocation_of_def inherited_invocation_def Command_def)

text \<open>
  A command whose two streams go to a buffer: the buffer receives everything, and the
  copying never fails.
\<close>

lemma copy_buffer:
  "Stdout c = Some Buffer_Write \<Longrightarrow> Stderr c = Some Buffer_Write \<Longrightarrow>
   copy_output c es b = (None, b @ concat (map snd es))"
  by (induction es arbitrary: b) (auto simp: Buffer_Write_def split: fd.splits)

text \<open>
  A command whose two streams go to \<open>MultiWriter Buffer_Write sink_Write\<close>: the
  buffer receives the delivered chunks, and the writer is called with the same chunks.
\<close>

lemma copy_multi:
  assumes "Stdout c = Some (MultiWriter Buffer_Write sink_Write)"
    and "Stderr c = Some (MultiWriter Buffer_Write sink_Write)"
  shows "snd (copy_output c es (b, s)) =
     (b @ concat (delivered s (map snd es)), logged s (map snd es))"
  using assms
proof (induction es arbitrary: b s)
  case Nil
  then show ?case by simp
next
  case (Cons a es)
  obtain f p where a: "a = (f, p)" by (cases a)
  obtain n err where r: "respond s (calls s) p = (n, err)" by (cases "respond s (calls s) p")
  show ?case
  proof (cases "takes s p")
    case True
    then have "n = length p" "err = None" using r by (simp_all add: takes_def)
    then show ?thesis
      using Cons.prems True r a Cons.IH [OF Cons.prems, of "b @ p" "snd (sink_Write p s)"]
      by (cases f) (simp_all add: MultiWriter_def Buffer_Write_def sink_Write_def)
  next
    case False
    then have "\<not> (n = length p \<and> err = None)" using r by (simp add: takes_def)
    then show ?thesis
      using Cons.prems False r a
      by (cases f) (auto simp: MultiWriter_def Buffer_Write_def sink_Write_def)
  qed
qed

lemma Wait_multi:
  assumes "Stdout c = Some (MultiWriter Buffer_Write sink_Write)"
    and "Stderr c = Some (MultiWriter Buffer_Write sink_Write)"
    and "Process c = Some p"
  shows "snd (Wait c (b, s)) =
     (b @ concat (delivered s (map snd (emits p))), logged s (map snd (emits p)))"
    and "status p = Some e \<Longrightarrow> fst (fst (Wait c (b, s))) = Some e"
  using copy_multi [OF assms(1,2), of "emits p" b s] assms(3)
  by (auto simp: Wait_def split: prod.splits)

lemma logged_calls: "calls (logged s ps) = calls s @ delivered s ps"
  by (induction ps arbitrary: s) (simp_all add: sink_Write_def)

lemma logged_respond: "respond (logged s ps) = respond s"
  by (induction ps arbitrary: s) (simp_all add: sink_Write_def)

lemma delivered_all: "(\<And>h q. respond s h q = (length q, None)) \<Longrightarrow> delivered s ps = ps"
  by (induction ps arbitrary: s) (simp_all add: takes_def sink_Write_def)

lemma logged_all:
  "(\<And>h q. respond s h q = (length q, None)) \<Longrightarrow> written (logged s ps) = written s @ concat ps"
  by (induction ps arbitrary: s) (simp_all add: takes_def sink_Write_def)

lemma delivered_prefix: "\<exists>k. delivered s ps = take k ps"
proof (induction ps arbitrary: s)
  case Nil
  then show ?case by simp
next
  case (Cons p ps)
  show ?case
  proof (cases "takes s p")
    case True
    obtain k where "delivered (snd (sink_Write p s)) ps = take k ps"
      using Cons.IH by blast
    then have "delivered s (p # ps) = take (Suc k) (p # ps)" using True by simp
    then show ?thesis by blast
  next
    case False
    then have "delivered s (p # ps) = take (Suc 0) (p # ps)" by simp
    then show ?thesis by blast
  qed
qed

subsection \<open>The operations, by the answer of the operating system\<close>

lemma ExecuteInDir_eq:
  "ExecuteInDir dir command arguments w =
     (case os_StartProcess w (ExecuteInDir_invocation dir command arguments w) of
        StartError e \<Rightarrow>
          (([], Some (WrapError (''could not start process: '' @ Error e) e)),
           attempted (ExecuteInDir_invocation dir command arguments w) w)
      | Started p \<Rightarrow>
          ((output_of p,
            case status p of
              None \<Rightarrow> None
            | Some e \<Rightarrow> Some (WrapError (''process error: '' @ Error e @ [newline] @ ''output: '' @ output_of p) e)),
           attempted (ExecuteInDir_invocation dir command arguments w) w))"
  by (auto simp: ExecuteInDir_def Let_def Start_def Wait_def Command_def append_slice_def
      invocation_of_def ExecuteInDir_invocation_def attempted_def output_of_def copy_buffer
      split: outcome.splits option.splits prod.splits)

lemma ExecuteInDir_world:
  "snd (ExecuteInDir dir command arguments w) =
     attempted (ExecuteInDir_invocation dir command arguments w) w"
  by (simp add: ExecuteInDir_eq split: outcome.splits)

lemma Logged_Started_eq:
  assumes "os_StartProcess w (inherited_invocation dir command arguments w) = Started p"
  shows "LoggedExecuteInDir dir writer command arguments w =
     (let mw = MultiWriter Buffer_Write sink_Write;
          r = Wait ((Command command arguments)\<lparr>Dir := dir, Stdout := Some mw, Stderr := Some mw,
                     Process := Some p\<rparr>) ([], writer)
      in ((fst (snd r),
           case fst (fst r) of None \<Rightarrow> None
           | Some e \<Rightarrow> Some (WrapError (''process error: '' @ Error e) e)),
          snd (snd r), attempted (inherited_invocation dir command arguments w) w))"
  unfolding LoggedExecuteInDir_def Let_def Command_Dir Start_eq
  using assms
  by (simp add: invocation_of_inherited split: prod.splits option.splits)

lemma Logged_started:
  assumes "os_StartProcess w (inherited_invocation dir command arguments w) = Started p"
  shows "fst (fst (LoggedExecuteInDir dir writer command arguments w)) =
       concat (delivered writer (map snd (emits p)))"
    and "fst (snd (LoggedExecuteInDir dir writer command arguments w)) =
       logged writer (map snd (emits p))"
    and "status p = Some e \<Longrightarrow> snd (fst (LoggedExecuteInDir dir writer command arguments w)) =
       Some (WrapError (''process error: '' @ Error e) e)"
  unfolding Logged_Started_eq [OF assms] Let_def
  by (simp_all add: Wait_multi)

lemma Logged_start_error:
  assumes "os_StartProcess w (inherited_invocation dir command arguments w) = StartError e"
  shows "LoggedExecuteInDir dir writer command arguments w =
     (([], Some (WrapError (''could not start process: '' @ Error e) e)), writer,
      attempted (inherited_invocation dir command arguments w) w)"
  unfolding LoggedExecuteInDir_def Let_def Command_Dir Start_eq
  using assms
  by (simp add: invocation_of_inherited)

lemma Logged_world:
  "snd (snd (LoggedExecuteInDir dir writer command arguments w)) =
     attempted (inherited_invocation dir command arguments w) w"
proof (cases "os_StartProcess w (inherited_invocation dir command arguments w)")
  case (StartError e)
  then show ?thesis by (simp add: Logged_start_error)
next
  case (Started p)
  then show ?thesis by (simp add: Logged_Started_eq Let_def)
qed

lemma Async_eq:
  "ExecuteAsyncInDir dir command arguments w =
     (case os_StartProcess w (inherited_invocation dir command arguments w) of
        StartError e \<Rightarrow>
          (((Command command arguments)\<lparr>Dir := dir\<rparr>,
            Some (WrapError (''process error: '' @ Error e) e)),
           attempted (inherited_invocation dir command arguments w) w)
      | Started p \<Rightarrow>
          (((Command command arguments)\<lparr>Dir := dir, Process := Some p\<rparr>, None),
           attempted (inherited_invocation dir command arguments w) w))"
  unfolding ExecuteAsyncInDir_def Let_def Command_Dir Start_eq
  by (simp add: invocation_of_inherited split: outcome.splits)

lemma env_key_lookup: "Some k \<in> set (map env_key env) \<longleftrightarrow> lookup_env env k \<noteq> None"
  by (induction env) (auto simp: env_defines_def split: option.splits)

lemma lookup_env_dedupEnv: "lookup_env (dedupEnv env) k = lookup_env env k"
proof (induction env)
  case Nil
  then show ?case by simp
next
  case (Cons kv env)
  show ?case
  proof (cases "env_key kv")
    case None
    then show ?thesis using Cons.IH by (auto simp: env_defines_def split: option.splits)
  next
    case (Some k')
    show ?thesis
    proof (cases "Some k' \<in> set (map env_key env)")
      case True
      then have "lookup_env env k' \<noteq> None" using env_key_lookup [of k' env] by blast
      then show ?thesis
        using Cons.IH Some True by (auto simp: env_defines_def split: option.splits)
    next
      case False
      then show ?thesis using Cons.IH Some by (simp add: env_defines_def)
    qed
  qed
qed

lemma dedupEnv_distinct:
  "None \<notin> set (map env_key env) \<Longrightarrow> distinct (map env_key env) \<Longrightarrow> dedupEnv env = env"
  by (induction env) (auto split: option.splits)

lemma dedupEnv_append:
  "dedupEnv (a @ b) =
     filter (\<lambda>kv. env_key kv = None \<or> env_key kv \<notin> set (map env_key b)) (dedupEnv a) @ dedupEnv b"
  by (induction a) (auto split: option.splits)

lemma lookup_env_append:
  "lookup_env (a @ b) k = (case lookup_env b k of Some v \<Rightarrow> Some v | None \<Rightarrow> lookup_env a k)"
  by (induction a) (auto split: option.splits)

lemma ExecuteString_eq:
  "ExecuteString command w =
     ExecuteString_return
       (Execute (hd (strings_Split command (CHR '' ''))) (tl (strings_Split command (CHR '' ''))) w)"
proof -
  obtain t ts where "strings_Split command (CHR '' '') = t # ts"
    using Split_not_Nil by (cases "strings_Split command (CHR '' '')") auto
  then show ?thesis
    by (cases ts) (simp_all add: ExecuteString_def ExecuteString_parts_def drop_Suc)
qed

lemma ExecuteString_return_simps:
  "fst (fst (ExecuteString_return r)) = fst (fst r)"
  "snd (ExecuteString_return r) = snd r"
  "snd (fst r) = None \<Longrightarrow> ExecuteString_return r = r"
  "snd (fst r) = Some e \<Longrightarrow>
     snd (fst (ExecuteString_return r)) =
       Some (WrapError (''error: '' @ Error e @ '', output: '' @ fst (fst r)) e)"
  by (auto simp: ExecuteString_return_def split: prod.splits option.splits)

lemma ExecuteString_return_not_ErrorString:
  "snd (fst (ExecuteString_return r)) \<noteq> Some (ErrorString m)"
  by (auto simp: ExecuteString_return_def split: prod.splits option.splits)

lemmas example_defs = example_world_def example_os_def ExecuteInDir_invocation_def
  inherited_invocation_def attempted_def output_of_def env_defines_def env_key_def
  implicit_PWD_def newline_def quote_def
  dquote_def log_sink_def closed_sink_def takes_def sink_Write_def

section \<open>The claims\<close>

subsection \<open>C1: the environment of LoggedExecuteInDir\<close>

text \<open>
  Claim C1 says that LoggedExecuteInDir builds the same environment as ExecuteInDir, the
  inherited environment followed by \<open>GoEnviron\<close>, so that the entries of
  \<open>GoEnviron\<close> are visible to the process. The code does not do that:
  LoggedExecuteInDir never assigns \<open>cmd.Env\<close>, so its process gets the inherited
  environment alone (lemma \<open>Logged_world\<close>). Here \<open>MY_VAR\<close> is set in
  \<open>GoEnviron\<close> only: \<open>printenv MY_VAR\<close> prints its value under ExecuteInDir, and
  exits with status 1 under LoggedExecuteInDir.
\<close>

theorem LoggedExecuteInDir_overlay_missing:
  "fst (ExecuteInDir [] ''printenv'' [''MY_VAR''] example_world) =
     (''some_value'' @ [newline], None) \<and>
   fst (LoggedExecuteInDir [] log_sink ''printenv'' [''MY_VAR''] example_world) =
     ([], Some (WrapError ''process error: exit status 1'' (OSError ''exit status 1''))) \<and>
   map environ (attempts (snd (ExecuteInDir [] ''printenv'' [''MY_VAR''] example_world))) =
     [[''PATH=/bin'', ''MY_VAR=some_value'', ''HOME=/tmp'']] \<and>
   map environ (attempts (snd (snd (LoggedExecuteInDir [] log_sink ''printenv'' [''MY_VAR''] example_world)))) =
     [[''PATH=/bin'', ''HOME=/root'']]"
proof -
  have s: "os_StartProcess example_world (inherited_invocation [] ''printenv'' [''MY_VAR''] example_world) =
      Started \<lparr>emits = [], status = Some (OSError ''exit status 1'')\<rparr>"
    by (simp add: example_defs)
  have "fst (fst (LoggedExecuteInDir [] log_sink ''printenv'' [''MY_VAR''] example_world)) = []"
    and "snd (fst (LoggedExecuteInDir [] log_sink ''printenv'' [''MY_VAR''] example_world)) =
      Some (WrapError ''process error: exit status 1'' (OSError ''exit status 1''))"
    using Logged_started(1) [OF s] Logged_started(3) [OF s] by simp_all
  then have "fst (LoggedExecuteInDir [] log_sink ''printenv'' [''MY_VAR''] example_world) =
     ([], Some (WrapError ''process error: exit status 1'' (OSError ''exit status 1'')))"
    by (simp add: prod_eq_iff)
  then show ?thesis
    by (simp add: ExecuteInDir_eq Logged_world example_defs)
qed

subsection \<open>C2: ExecuteAsync and ExecuteAsyncInDir\<close>

text \<open>
  Claim C2 says that the asynchronous operations attach the buffer that the blocking
  operations attach. They attach nothing: for \<open>make\<close>, which prints three lines,
  the command returned has nil \<open>Stdout\<close> and \<open>Stderr\<close>, and waiting on it captures
  nothing, while Execute returns the three lines.
\<close>

theorem ExecuteAsync_capture_counterexample:
  "Stdout (fst (fst (ExecuteAsync ''make'' [] example_world :: (bytes Cmd \<times> error option) \<times> world))) = None \<and>
   Stderr (fst (fst (ExecuteAsync ''make'' [] example_world :: (bytes Cmd \<times> error option) \<times> world))) = None \<and>
   snd (Wait (fst (fst (ExecuteAsync ''make'' [] example_world))) []) = [] \<and>
   fst (fst (Execute ''make'' [] example_world)) =
     ''cc -c main.c'' @ [newline] @ ''main.c:1: error'' @ [newline] @ ''make: failed'' @ [newline]"
  by (simp add: ExecuteAsync_def Async_eq Execute_def ExecuteInDir_eq Wait_def Command_def example_defs)

text \<open>
  Claim C2, amended: ExecuteAsync and ExecuteAsyncInDir leave \<open>Stdout\<close> and
  \<open>Stderr\<close> nil, so the output of the process is discarded, not captured; after a
  successful start they return at once, with the started process, no error, and no
  process state, which only \<open>Wait\<close> sets. ExecuteAsync is ExecuteAsyncInDir with the
  empty directory.
\<close>

theorem ExecuteAsync_starts_without_capture:
  "Stdout (fst (fst (ExecuteAsyncInDir dir command arguments w :: ('s Cmd \<times> error option) \<times> world))) = None \<and>
   Stderr (fst (fst (ExecuteAsyncInDir dir command arguments w :: ('s Cmd \<times> error option) \<times> world))) = None \<and>
   (os_StartProcess w (inherited_invocation dir command arguments w) = Started p \<longrightarrow>
      snd (fst (ExecuteAsyncInDir dir command arguments w :: ('s Cmd \<times> error option) \<times> world)) = None \<and>
      Process (fst (fst (ExecuteAsyncInDir dir command arguments w :: ('s Cmd \<times> error option) \<times> world))) = Some p \<and>
      ProcessState (fst (fst (ExecuteAsyncInDir dir command arguments w :: ('s Cmd \<times> error option) \<times> world))) = None) \<and>
   (ExecuteAsync command arguments w :: ('s Cmd \<times> error option) \<times> world) =
      ExecuteAsyncInDir [] command arguments w"
  by (simp add: ExecuteAsync_def Async_eq Command_def split: outcome.splits)

theorem ExecuteAsync_starts_without_capture_witness:
  "os_StartProcess example_world (inherited_invocation [] ''sleep'' [''3600''] example_world) =
     Started \<lparr>emits = [], status = None\<rparr> \<and>
   Stdout (fst (fst (ExecuteAsync ''sleep'' [''3600''] example_world :: (bytes Cmd \<times> error option) \<times> world))) = None \<and>
   Stderr (fst (fst (ExecuteAsync ''sleep'' [''3600''] example_world :: (bytes Cmd \<times> error option) \<times> world))) = None \<and>
   snd (fst (ExecuteAsync ''sleep'' [''3600''] example_world :: (bytes Cmd \<times> error option) \<times> world)) = None \<and>
   Process (fst (fst (ExecuteAsync ''sleep'' [''3600''] example_world :: (bytes Cmd \<times> error option) \<times> world))) =
     Some \<lparr>emits = [], status = None\<rparr> \<and>
   ProcessState (fst (fst (ExecuteAsync ''sleep'' [''3600''] example_world :: (bytes Cmd \<times> error option) \<times> world))) = None"
proof -
  have a: "os_StartProcess example_world (inherited_invocation [] ''sleep'' [''3600''] example_world) =
     Started \<lparr>emits = [], status = None\<rparr>"
    by (simp add: example_defs)
  show ?thesis
    using a ExecuteAsync_starts_without_capture [where 's = bytes, of "[]" "''sleep''" "[''3600'']" example_world
        "\<lparr>emits = [], status = None\<rparr>"]
    by simp
qed

subsection \<open>C3: ExecuteString on the empty string\<close>

text \<open>
  Claim C3 says that ExecuteString fails with the invalid-command error on the empty
  string (and on a string of spaces), and attempts nothing. The code has a branch that
  returns that error, for an empty list of parts, but the split of the empty string is
  the list of one empty part, so the branch is never taken: ExecuteString calls Execute
  with the empty program name, \<open>Start\<close> is called with that command, and the error
  returned is the start error of the empty name, wrapped twice. A single space goes the
  same way.
\<close>

theorem ExecuteString_empty_not_rejected:
  "strings_Split [] (CHR '' '') = [[]] \<and>
   ExecuteString [] example_world =
     (([], Some (WrapError ''error: could not start process: exec: no command, output: ''
                   (WrapError ''could not start process: exec: no command''
                      (OSError ''exec: no command'')))),
      example_world\<lparr>attempts :=
        [\<lparr>program = [], argv = [[]], workdir = [],
          environ = [''PATH=/bin'', ''MY_VAR=some_value'', ''HOME=/tmp'']\<rparr>]\<rparr>) \<and>
   snd (fst (ExecuteString [] example_world)) \<noteq>
     Some (ErrorString (''invalid command to run '' @ [quote] @ [quote])) \<and>
   snd (fst (ExecuteString '' '' example_world)) =
     Some (WrapError ''error: could not start process: exec: no command, output: ''
             (WrapError ''could not start process: exec: no command''
                (OSError ''exec: no command'')))"
  by (simp add: ExecuteString_eq Split_Nil Split_Cons Execute_def ExecuteInDir_eq
      ExecuteString_return_def example_defs)

subsection \<open>C4: ExecuteString and Execute\<close>

text \<open>
  Claim C4 says that ExecuteString returns the same output and error as Execute on the
  first part with the other parts as arguments. When Execute fails, the errors differ:
  ExecuteString wraps the error of Execute once more.
\<close>

theorem ExecuteString_Execute_counterexample:
  "strings_Split ''ls /nonexistent'' (CHR '' '') = [''ls'', ''/nonexistent''] \<and>
   snd (fst (Execute ''ls'' [''/nonexistent''] example_world)) =
     Some (WrapError (''process error: exit status 2'' @ [newline] @
                        ''output: ls: /nonexistent: No such file or directory'' @ [newline])
             (OSError ''exit status 2'')) \<and>
   snd (fst (ExecuteString ''ls /nonexistent'' example_world)) =
     Some (WrapError (''error: process error: exit status 2'' @ [newline] @
                        ''output: ls: /nonexistent: No such file or directory'' @ [newline] @
                        '', output: ls: /nonexistent: No such file or directory'' @ [newline])
             (WrapError (''process error: exit status 2'' @ [newline] @
                           ''output: ls: /nonexistent: No such file or directory'' @ [newline])
                (OSError ''exit status 2''))) \<and>
   ExecuteString ''ls /nonexistent'' example_world \<noteq> Execute ''ls'' [''/nonexistent''] example_world"
proof -
  have e: "Execute ''ls'' [''/nonexistent''] example_world =
     ((''ls: /nonexistent: No such file or directory'' @ [newline],
       Some (WrapError (''process error: exit status 2'' @ [newline] @
                        ''output: ls: /nonexistent: No such file or directory'' @ [newline])
             (OSError ''exit status 2''))),
      attempted (ExecuteInDir_invocation [] ''ls'' [''/nonexistent''] example_world) example_world)"
    by (simp add: Execute_def ExecuteInDir_eq example_os_def example_world_def
        ExecuteInDir_invocation_def output_of_def)
  have s: "strings_Split ''ls /nonexistent'' (CHR '' '') = [''ls'', ''/nonexistent'']"
    by (simp add: Split_Nil Split_Cons)
  have x: "ExecuteString ''ls /nonexistent'' example_world =
     ExecuteString_return (Execute ''ls'' [''/nonexistent''] example_world)"
    by (simp add: ExecuteString_eq s)
  show ?thesis
    unfolding x e by (simp add: s ExecuteString_return_def)
qed

text \<open>
  Claim C4, amended: for a command string whose parts are \<open>t # ts\<close>, ExecuteString
  returns the output of \<open>Execute t ts\<close> and leaves the same state; when Execute
  succeeds the whole result is the same, as for \<open>echo hi\<close> where \<open>echo\<close> succeeds;
  when Execute fails with \<open>e\<close>, ExecuteString fails with an error that wraps \<open>e\<close>
  and whose message is \<open>error: \<close>, the message of \<open>e\<close>, \<open>, output: \<close>
  and the output.
\<close>

theorem ExecuteString_delegates:
  assumes "strings_Split command (CHR '' '') = t # ts"
  shows "fst (fst (ExecuteString command w)) = fst (fst (Execute t ts w)) \<and>
     snd (ExecuteString command w) = snd (Execute t ts w) \<and>
     (snd (fst (Execute t ts w)) = None \<longrightarrow> ExecuteString command w = Execute t ts w) \<and>
     (\<forall>e. snd (fst (Execute t ts w)) = Some e \<longrightarrow>
        snd (fst (ExecuteString command w)) =
          Some (WrapError (''error: '' @ Error e @ '', output: '' @ fst (fst (Execute t ts w))) e))"
  using assms by (simp add: ExecuteString_eq ExecuteString_return_simps)

theorem ExecuteString_delegates_witness:
  "strings_Split ''echo hi'' (CHR '' '') = [''echo'', ''hi''] \<and>
   snd (fst (Execute ''echo'' [''hi''] example_world)) = None \<and>
   fst (fst (Execute ''echo'' [''hi''] example_world)) = ''hi'' @ [newline] \<and>
   ExecuteString ''echo hi'' example_world = Execute ''echo'' [''hi''] example_world \<and>
   strings_Split ''ls /nonexistent'' (CHR '' '') = [''ls'', ''/nonexistent''] \<and>
   snd (fst (Execute ''ls'' [''/nonexistent''] example_world)) =
     Some (WrapError (''process error: exit status 2'' @ [newline] @
                        ''output: ls: /nonexistent: No such file or directory'' @ [newline])
             (OSError ''exit status 2'')) \<and>
   snd (fst (ExecuteString ''ls /nonexistent'' example_world)) =
     Some (WrapError (''error: process error: exit status 2'' @ [newline] @
                        ''output: ls: /nonexistent: No such file or directory'' @ [newline] @
                        '', output: ls: /nonexistent: No such file or directory'' @ [newline])
             (WrapError (''process error: exit status 2'' @ [newline] @
                           ''output: ls: /nonexistent: No such file or directory'' @ [newline])
                (OSError ''exit status 2'')))"
proof -
  have s1: "strings_Split ''echo hi'' (CHR '' '') = [''echo'', ''hi'']"
    and s2: "strings_Split ''ls /nonexistent'' (CHR '' '') = [''ls'', ''/nonexistent'']"
    by (simp_all add: Split_Nil Split_Cons)
  have e1: "fst (Execute ''echo'' [''hi''] example_world) = (''hi'' @ [newline], None)"
    and e2: "fst (Execute ''ls'' [''/nonexistent''] example_world) =
       (''ls: /nonexistent: No such file or directory'' @ [newline],
        Some (WrapError (''process error: exit status 2'' @ [newline] @
                        ''output: ls: /nonexistent: No such file or directory'' @ [newline])
             (OSError ''exit status 2'')))"
    by (simp_all add: Execute_def ExecuteInDir_eq example_os_def example_world_def
        ExecuteInDir_invocation_def output_of_def)
  show ?thesis
    using ExecuteString_delegates [OF s1, of example_world]
      ExecuteString_delegates [OF s2, of example_world]
    by (simp add: s1 s2 e1 e2)
qed

subsection \<open>C5: the environment of Execute and ExecuteInDir\<close>

text \<open>
  Claim C5 says that the environment passed to the process is exactly the inherited
  environment followed by the entries of \<open>GoEnviron\<close>. That is the list the code puts
  in \<open>cmd.Env\<close>; \<open>os/exec\<close> passes it on without the earlier entries of a key
  that is listed again. Here \<open>HOME\<close> is inherited and set in \<open>GoEnviron\<close>: the
  list has four entries, and \<open>env\<close> prints three, without the inherited \<open>HOME\<close>.
\<close>

theorem ExecuteInDir_environment_counterexample:
  "os_Environ example_world @ GoEnviron example_world =
     [''PATH=/bin'', ''HOME=/root'', ''MY_VAR=some_value'', ''HOME=/tmp''] \<and>
   fst (Execute ''env'' [] example_world) =
     (''PATH=/bin'' @ [newline] @ ''MY_VAR=some_value'' @ [newline] @ ''HOME=/tmp'' @ [newline], None)"
  by (simp add: Execute_def ExecuteInDir_eq example_defs)

text \<open>
  Claim C5, amended: Execute and ExecuteInDir start the command with the inherited
  environment followed by the entries of \<open>GoEnviron\<close> in their order, less the earlier
  entries of every key that is listed again: what the process gets is the inherited
  entries whose key \<open>GoEnviron\<close> does not define, then the entries of \<open>GoEnviron\<close>
  (each list without its own earlier duplicates), and exactly the whole list when no key is
  listed twice. Every key has there the value that last-entry-wins lookup finds in the
  whole list, so a key that \<open>GoEnviron\<close> defines has the value \<open>GoEnviron\<close> gives it,
  whatever the inherited environment says. The result of the call is the answer to that
  invocation: the start error wrapped, or what the process prints and how it exits.
  Execute is ExecuteInDir with the empty directory.
\<close>

theorem ExecuteInDir_environment:
  "ExecuteInDir dir command arguments w =
     (case os_StartProcess w
             \<lparr>program = command, argv = command # arguments, workdir = dir,
              environ = dedupEnv (os_Environ w @ GoEnviron w)\<rparr> of
        StartError e \<Rightarrow>
          (([], Some (WrapError (''could not start process: '' @ Error e) e)),
           attempted \<lparr>program = command, argv = command # arguments, workdir = dir,
                      environ = dedupEnv (os_Environ w @ GoEnviron w)\<rparr> w)
      | Started p \<Rightarrow>
          ((output_of p,
            case status p of
              None \<Rightarrow> None
            | Some e \<Rightarrow>
                Some (WrapError (''process error: '' @ Error e @ [newline] @ ''output: '' @ output_of p) e)),
           attempted \<lparr>program = command, argv = command # arguments, workdir = dir,
                      environ = dedupEnv (os_Environ w @ GoEnviron w)\<rparr> w)) \<and>
   Execute command arguments w = ExecuteInDir [] command arguments w \<and>
   dedupEnv (os_Environ w @ GoEnviron w) =
     filter (\<lambda>kv. env_key kv = None \<or> env_key kv \<notin> set (map env_key (GoEnviron w)))
       (dedupEnv (os_Environ w)) @ dedupEnv (GoEnviron w) \<and>
   lookup_env (dedupEnv (os_Environ w @ GoEnviron w)) k = lookup_env (os_Environ w @ GoEnviron w) k \<and>
   (lookup_env (GoEnviron w) k = Some v \<longrightarrow>
      lookup_env (dedupEnv (os_Environ w @ GoEnviron w)) k = Some v) \<and>
   (None \<notin> set (map env_key (os_Environ w @ GoEnviron w)) \<and>
    distinct (map env_key (os_Environ w @ GoEnviron w)) \<longrightarrow>
      dedupEnv (os_Environ w @ GoEnviron w) = os_Environ w @ GoEnviron w)"
proof (intro conjI)
  show "ExecuteInDir dir command arguments w =
     (case os_StartProcess w
             \<lparr>program = command, argv = command # arguments, workdir = dir,
              environ = dedupEnv (os_Environ w @ GoEnviron w)\<rparr> of
        StartError e \<Rightarrow>
          (([], Some (WrapError (''could not start process: '' @ Error e) e)),
           attempted \<lparr>program = command, argv = command # arguments, workdir = dir,
                      environ = dedupEnv (os_Environ w @ GoEnviron w)\<rparr> w)
      | Started p \<Rightarrow>
          ((output_of p,
            case status p of
              None \<Rightarrow> None
            | Some e \<Rightarrow>
                Some (WrapError (''process error: '' @ Error e @ [newline] @ ''output: '' @ output_of p) e)),
           attempted \<lparr>program = command, argv = command # arguments, workdir = dir,
                      environ = dedupEnv (os_Environ w @ GoEnviron w)\<rparr> w))"
    using ExecuteInDir_eq [of dir command arguments w]
    by (simp only: ExecuteInDir_invocation_def)
  show "Execute command arguments w = ExecuteInDir [] command arguments w"
    by (simp add: Execute_def)
  show "dedupEnv (os_Environ w @ GoEnviron w) =
     filter (\<lambda>kv. env_key kv = None \<or> env_key kv \<notin> set (map env_key (GoEnviron w)))
       (dedupEnv (os_Environ w)) @ dedupEnv (GoEnviron w)"
    by (rule dedupEnv_append)
  show "lookup_env (dedupEnv (os_Environ w @ GoEnviron w)) k = lookup_env (os_Environ w @ GoEnviron w) k"
    by (rule lookup_env_dedupEnv)
  show "lookup_env (GoEnviron w) k = Some v \<longrightarrow>
      lookup_env (dedupEnv (os_Environ w @ GoEnviron w)) k = Some v"
    by (simp add: lookup_env_dedupEnv lookup_env_append)
  show "None \<notin> set (map env_key (os_Environ w @ GoEnviron w)) \<and>
    distinct (map env_key (os_Environ w @ GoEnviron w)) \<longrightarrow>
      dedupEnv (os_Environ w @ GoEnviron w) = os_Environ w @ GoEnviron w"
    using dedupEnv_distinct [of "os_Environ w @ GoEnviron w"] by blast
qed

theorem ExecuteInDir_environment_witness:
  "lookup_env (os_Environ example_world) ''HOME'' = Some ''/root'' \<and>
   lookup_env (GoEnviron example_world) ''HOME'' = Some ''/tmp'' \<and>
   lookup_env (dedupEnv (os_Environ example_world @ GoEnviron example_world)) ''HOME'' = Some ''/tmp'' \<and>
   dedupEnv (os_Environ example_world @ GoEnviron example_world) =
     [''PATH=/bin'', ''MY_VAR=some_value'', ''HOME=/tmp''] \<and>
   fst (ExecuteInDir ''/src'' ''printenv'' [''HOME''] example_world) = (''/tmp'' @ [newline], None) \<and>
   fst (Execute ''printenv'' [''HOME''] example_world) = (''/tmp'' @ [newline], None) \<and>
   distinct (map env_key (os_Environ example_world @ [''MY_VAR=some_value''])) \<and>
   None \<notin> set (map env_key (os_Environ example_world @ [''MY_VAR=some_value''])) \<and>
   fst (Execute ''env'' [] (example_world\<lparr>GoEnviron := [''MY_VAR=some_value'']\<rparr>)) =
     (''PATH=/bin'' @ [newline] @ ''HOME=/root'' @ [newline] @ ''MY_VAR=some_value'' @ [newline], None)"
proof -
  note t = ExecuteInDir_environment [of "''/src''" "''printenv''" "[''HOME'']" example_world
      "''HOME''" "''/tmp''"]
  note u = ExecuteInDir_environment [of "[]" "''printenv''" "[''HOME'']" example_world
      "''HOME''" "''/tmp''"]
  note d = ExecuteInDir_environment [of "[]" "''env''" "[]"
      "example_world\<lparr>GoEnviron := [''MY_VAR=some_value'']\<rparr>" "''HOME''" "''/tmp''"]
  have h: "lookup_env (GoEnviron example_world) ''HOME'' = Some ''/tmp''"
    by (simp add: example_defs)
  have k: "None \<notin> set (map env_key (os_Environ example_world @ [''MY_VAR=some_value''])) \<and>
      distinct (map env_key (os_Environ example_world @ [''MY_VAR=some_value'']))"
    by (simp add: example_defs)
  have 1: "lookup_env (dedupEnv (os_Environ example_world @ GoEnviron example_world)) ''HOME'' = Some ''/tmp''"
    using t h by blast
  have 2: "dedupEnv (os_Environ example_world @ [''MY_VAR=some_value'']) =
      os_Environ example_world @ [''MY_VAR=some_value'']"
    using d [THEN conjunct2, THEN conjunct2, THEN conjunct2, THEN conjunct2, THEN conjunct2] k
    by (simp add: example_world_def)
  have 3: "fst (ExecuteInDir ''/src'' ''printenv'' [''HOME''] example_world) = (''/tmp'' @ [newline], None)"
    unfolding t [THEN conjunct1] by (simp add: example_defs)
  have 4: "fst (Execute ''printenv'' [''HOME''] example_world) = (''/tmp'' @ [newline], None)"
    unfolding u [THEN conjunct2, THEN conjunct1] u [THEN conjunct1] by (simp add: example_defs)
  have 5: "fst (Execute ''env'' [] (example_world\<lparr>GoEnviron := [''MY_VAR=some_value'']\<rparr>)) =
     (''PATH=/bin'' @ [newline] @ ''HOME=/root'' @ [newline] @ ''MY_VAR=some_value'' @ [newline], None)"
    unfolding d [THEN conjunct2, THEN conjunct1] d [THEN conjunct1]
    by (simp add: example_defs)
  show ?thesis
    using h k by (simp add: 1 3 4 5) (simp add: example_defs)
qed

subsection \<open>C6: a process that fails\<close>

text \<open>
  Claim C6 says that when the process fails, both operations return the full captured
  output, LoggedExecuteInDir without the output in the error text. LoggedExecuteInDir
  does not always return everything the process printed: the copying ends at the first
  chunk the writer does not take. With a closed pipe as the writer, \<open>make\<close> prints
  three lines and fails, and only the first line is returned.
\<close>

theorem LoggedExecuteInDir_capture_counterexample:
  "os_StartProcess example_world (inherited_invocation ''/src'' ''make'' [] example_world) =
     Started \<lparr>emits = [(fd_stdout, ''cc -c main.c'' @ [newline]),
                       (fd_stderr, ''main.c:1: error'' @ [newline]),
                       (fd_stdout, ''make: failed'' @ [newline])],
              status = Some (OSError ''exit status 2'')\<rparr> \<and>
   output_of \<lparr>emits = [(fd_stdout, ''cc -c main.c'' @ [newline]),
                       (fd_stderr, ''main.c:1: error'' @ [newline]),
                       (fd_stdout, ''make: failed'' @ [newline])],
              status = Some (OSError ''exit status 2'')\<rparr> =
     ''cc -c main.c'' @ [newline] @ ''main.c:1: error'' @ [newline] @ ''make: failed'' @ [newline] \<and>
   fst (fst (LoggedExecuteInDir ''/src'' closed_sink ''make'' [] example_world)) =
     ''cc -c main.c'' @ [newline] \<and>
   snd (fst (LoggedExecuteInDir ''/src'' closed_sink ''make'' [] example_world)) =
     Some (WrapError ''process error: exit status 2'' (OSError ''exit status 2''))"
proof -
  have s: "os_StartProcess example_world (inherited_invocation ''/src'' ''make'' [] example_world) =
     Started \<lparr>emits = [(fd_stdout, ''cc -c main.c'' @ [newline]),
                       (fd_stderr, ''main.c:1: error'' @ [newline]),
                       (fd_stdout, ''make: failed'' @ [newline])],
              status = Some (OSError ''exit status 2'')\<rparr>"
    by (simp add: example_defs)
  show ?thesis
    using s Logged_started(3) [OF s, of "OSError ''exit status 2''" closed_sink]
    by (simp add: Logged_started(1) [OF s] closed_sink_def takes_def sink_Write_def output_of_def)
qed

text \<open>
  Claim C6, amended: when the process exits with a non-zero status or is killed by a
  signal, ExecuteInDir returns everything the process printed, with an error that wraps
  the exit error and whose message ends with that output; LoggedExecuteInDir returns an
  error that wraps the exit error and whose message holds no output, and with it what
  the buffer captured: the chunks up to and including the first one the writer does not
  take, which is everything the process printed if the writer takes every write.
\<close>

theorem exit_error_keeps_output:
  "(os_StartProcess w (ExecuteInDir_invocation dir command arguments w) = Started p \<and>
    status p = Some e \<longrightarrow>
      ExecuteInDir dir command arguments w =
        ((output_of p,
          Some (WrapError (''process error: '' @ Error e @ [newline] @ ''output: '' @ output_of p) e)),
         attempted (ExecuteInDir_invocation dir command arguments w) w)) \<and>
   (os_StartProcess w (inherited_invocation dir command arguments w) = Started q \<and>
    status q = Some e' \<longrightarrow>
      snd (fst (LoggedExecuteInDir dir writer command arguments w)) =
        Some (WrapError (''process error: '' @ Error e') e') \<and>
      fst (fst (LoggedExecuteInDir dir writer command arguments w)) =
        concat (delivered writer (map snd (emits q))) \<and>
      ((\<forall>h x. respond writer h x = (length x, None)) \<longrightarrow>
         fst (fst (LoggedExecuteInDir dir writer command arguments w)) = output_of q))"
  by (simp add: ExecuteInDir_eq Logged_started delivered_all output_of_def)

theorem exit_error_keeps_output_witness:
  "os_StartProcess example_world (ExecuteInDir_invocation ''/src'' ''make'' [] example_world) =
     Started \<lparr>emits = [(fd_stdout, ''cc -c main.c'' @ [newline]),
                       (fd_stderr, ''main.c:1: error'' @ [newline]),
                       (fd_stdout, ''make: failed'' @ [newline])],
              status = Some (OSError ''exit status 2'')\<rparr> \<and>
   (\<forall>h x. respond log_sink h x = (length x, None)) \<and>
   fst (fst (ExecuteInDir ''/src'' ''make'' [] example_world)) =
     ''cc -c main.c'' @ [newline] @ ''main.c:1: error'' @ [newline] @ ''make: failed'' @ [newline] \<and>
   snd (fst (ExecuteInDir ''/src'' ''make'' [] example_world)) =
     Some (WrapError (''process error: exit status 2'' @ [newline] @ ''output: cc -c main.c'' @ [newline] @
                        ''main.c:1: error'' @ [newline] @ ''make: failed'' @ [newline])
             (OSError ''exit status 2'')) \<and>
   fst (fst (LoggedExecuteInDir ''/src'' log_sink ''make'' [] example_world)) =
     ''cc -c main.c'' @ [newline] @ ''main.c:1: error'' @ [newline] @ ''make: failed'' @ [newline] \<and>
   snd (fst (LoggedExecuteInDir ''/src'' log_sink ''make'' [] example_world)) =
     Some (WrapError ''process error: exit status 2'' (OSError ''exit status 2''))"
proof -
  let ?p = "\<lparr>emits = [(fd_stdout, ''cc -c main.c'' @ [newline]),
                       (fd_stderr, ''main.c:1: error'' @ [newline]),
                       (fd_stdout, ''make: failed'' @ [newline])],
              status = Some (OSError ''exit status 2'')\<rparr>"
  have a: "os_StartProcess example_world (ExecuteInDir_invocation ''/src'' ''make'' [] example_world) =
     Started ?p"
    by (simp add: example_defs)
  have b: "os_StartProcess example_world (inherited_invocation ''/src'' ''make'' [] example_world) =
     Started ?p"
    by (simp add: example_defs)
  have c: "\<forall>h x. respond log_sink h x = (length x, None)"
    by (simp add: log_sink_def)
  have s: "status ?p = Some (OSError ''exit status 2'')"
    by simp
  note t = exit_error_keeps_output [of example_world "''/src''" "''make''" "[]" ?p
      "OSError ''exit status 2''" ?p "OSError ''exit status 2''" log_sink]
  have 1: "ExecuteInDir ''/src'' ''make'' [] example_world =
        ((output_of ?p,
          Some (WrapError (''process error: '' @ Error (OSError ''exit status 2'') @ [newline] @
                  ''output: '' @ output_of ?p) (OSError ''exit status 2''))),
         attempted (ExecuteInDir_invocation ''/src'' ''make'' [] example_world) example_world)"
    using t a s by blast
  have 2: "snd (fst (LoggedExecuteInDir ''/src'' log_sink ''make'' [] example_world)) =
        Some (WrapError (''process error: '' @ Error (OSError ''exit status 2''))
          (OSError ''exit status 2''))"
    and 3: "fst (fst (LoggedExecuteInDir ''/src'' log_sink ''make'' [] example_world)) = output_of ?p"
    using t b c s by blast+
  show ?thesis
    using a c by (simp add: 1 2 3 output_of_def)
qed

subsection \<open>C7: a process that does not start\<close>

text \<open>
  Claim C7: when the start fails, ExecuteInDir and LoggedExecuteInDir return the
  contents of the buffer, which is empty, and an error, never success: the error wraps
  the start error, and its message is \<open>could not start process: \<close> and the message
  of the start error.
\<close>

theorem start_error_is_reported:
  "(os_StartProcess w (ExecuteInDir_invocation dir command arguments w) = StartError e \<longrightarrow>
      ExecuteInDir dir command arguments w =
        (([], Some (WrapError (''could not start process: '' @ Error e) e)),
         attempted (ExecuteInDir_invocation dir command arguments w) w)) \<and>
   (os_StartProcess w (inherited_invocation dir command arguments w) = StartError e' \<longrightarrow>
      LoggedExecuteInDir dir writer command arguments w =
        (([], Some (WrapError (''could not start process: '' @ Error e') e')), writer,
         attempted (inherited_invocation dir command arguments w) w))"
  by (simp add: ExecuteInDir_eq Logged_start_error)

theorem start_error_is_reported_witness:
  "os_StartProcess example_world (ExecuteInDir_invocation [] ''kubectl'' [''version''] example_world) =
     StartError (OSError (''exec: '' @ [dquote] @ ''kubectl'' @ [dquote] @ '': executable file not found in $PATH'')) \<and>
   fst (ExecuteInDir [] ''kubectl'' [''version''] example_world) =
     ([], Some (WrapError (''could not start process: exec: '' @ [dquote] @ ''kubectl'' @ [dquote] @ '': executable file not found in $PATH'')
                  (OSError (''exec: '' @ [dquote] @ ''kubectl'' @ [dquote] @ '': executable file not found in $PATH'')))) \<and>
   fst (LoggedExecuteInDir [] log_sink ''kubectl'' [''version''] example_world) =
     ([], Some (WrapError (''could not start process: exec: '' @ [dquote] @ ''kubectl'' @ [dquote] @ '': executable file not found in $PATH'')
                  (OSError (''exec: '' @ [dquote] @ ''kubectl'' @ [dquote] @ '': executable file not found in $PATH'')))) \<and>
   fst (snd (LoggedExecuteInDir [] log_sink ''kubectl'' [''version''] example_world)) = log_sink"
proof -
  let ?e = "OSError (''exec: '' @ [dquote] @ ''kubectl'' @ [dquote] @ '': executable file not found in $PATH'')"
  have a: "os_StartProcess example_world (ExecuteInDir_invocation [] ''kubectl'' [''version''] example_world) =
     StartError ?e"
    by (simp add: example_defs)
  have b: "os_StartProcess example_world (inherited_invocation [] ''kubectl'' [''version''] example_world) =
     StartError ?e"
    by (simp add: example_defs)
  show ?thesis
    using a b start_error_is_reported [of example_world "[]" "''kubectl''" "[''version'']" ?e ?e log_sink]
    by simp
qed

subsection \<open>C8: the buffer and the writer of LoggedExecuteInDir\<close>

text \<open>
  Claim C8 says that after every run of LoggedExecuteInDir the bytes written to the
  writer are the bytes returned. A writer that fails breaks that: each write goes to the
  buffer first, so the buffer holds the chunk the writer refused. With a closed pipe as
  the writer, the first line of \<open>make\<close> is returned, and the writer has written
  nothing.
\<close>

theorem LoggedExecuteInDir_closed_sink_counterexample:
  "fst (fst (LoggedExecuteInDir ''/src'' closed_sink ''make'' [] example_world)) =
     ''cc -c main.c'' @ [newline] \<and>
   written (fst (snd (LoggedExecuteInDir ''/src'' closed_sink ''make'' [] example_world))) = [] \<and>
   calls (fst (snd (LoggedExecuteInDir ''/src'' closed_sink ''make'' [] example_world))) =
     [''cc -c main.c'' @ [newline]]"
proof -
  have s: "os_StartProcess example_world (inherited_invocation ''/src'' ''make'' [] example_world) =
     Started \<lparr>emits = [(fd_stdout, ''cc -c main.c'' @ [newline]),
                       (fd_stderr, ''main.c:1: error'' @ [newline]),
                       (fd_stdout, ''make: failed'' @ [newline])],
              status = Some (OSError ''exit status 2'')\<rparr>"
    by (simp add: example_defs)
  show ?thesis
    by (simp add: Logged_started(1,2) [OF s] closed_sink_def takes_def sink_Write_def)
qed

text \<open>
  Claim C8, amended: in every run of LoggedExecuteInDir, the writer is called with the
  same chunks as are put in the buffer, in the order the process emits them, up to the
  first chunk the writer does not take; so the bytes the writer was called with are the
  bytes returned. If the writer takes every write in full, the bytes it has written are
  the bytes returned, and they are everything the process printed.
\<close>

theorem LoggedExecuteInDir_tee:
  "concat (calls (fst (snd (LoggedExecuteInDir dir writer command arguments w)))) =
     concat (calls writer) @ fst (fst (LoggedExecuteInDir dir writer command arguments w)) \<and>
   (os_StartProcess w (inherited_invocation dir command arguments w) = Started p \<longrightarrow>
      calls (fst (snd (LoggedExecuteInDir dir writer command arguments w))) =
        calls writer @ delivered writer (map snd (emits p)) \<and>
      fst (fst (LoggedExecuteInDir dir writer command arguments w)) =
        concat (delivered writer (map snd (emits p))) \<and>
      (\<exists>k. delivered writer (map snd (emits p)) = take k (map snd (emits p))) \<and>
      ((\<forall>h x. respond writer h x = (length x, None)) \<longrightarrow>
         written (fst (snd (LoggedExecuteInDir dir writer command arguments w))) =
           written writer @ fst (fst (LoggedExecuteInDir dir writer command arguments w)) \<and>
         fst (fst (LoggedExecuteInDir dir writer command arguments w)) = output_of p))"
proof (cases "os_StartProcess w (inherited_invocation dir command arguments w)")
  case (StartError e)
  then show ?thesis by (simp add: Logged_start_error)
next
  case (Started q)
  show ?thesis
    using delivered_prefix [of writer "map snd (emits q)"]
    by (auto simp: Started Logged_started(1,2) [OF Started] logged_calls logged_all delivered_all
        output_of_def)
qed

theorem LoggedExecuteInDir_tee_witness:
  "os_StartProcess example_world (inherited_invocation ''/src'' ''make'' [] example_world) =
     Started \<lparr>emits = [(fd_stdout, ''cc -c main.c'' @ [newline]),
                       (fd_stderr, ''main.c:1: error'' @ [newline]),
                       (fd_stdout, ''make: failed'' @ [newline])],
              status = Some (OSError ''exit status 2'')\<rparr> \<and>
   (\<forall>h x. respond log_sink h x = (length x, None)) \<and>
   calls (fst (snd (LoggedExecuteInDir ''/src'' log_sink ''make'' [] example_world))) =
     [''cc -c main.c'' @ [newline], ''main.c:1: error'' @ [newline], ''make: failed'' @ [newline]] \<and>
   written (fst (snd (LoggedExecuteInDir ''/src'' log_sink ''make'' [] example_world))) =
     ''cc -c main.c'' @ [newline] @ ''main.c:1: error'' @ [newline] @ ''make: failed'' @ [newline] \<and>
   fst (fst (LoggedExecuteInDir ''/src'' log_sink ''make'' [] example_world)) =
     ''cc -c main.c'' @ [newline] @ ''main.c:1: error'' @ [newline] @ ''make: failed'' @ [newline]"
proof -
  let ?p = "\<lparr>emits = [(fd_stdout, ''cc -c main.c'' @ [newline]),
                       (fd_stderr, ''main.c:1: error'' @ [newline]),
                       (fd_stdout, ''make: failed'' @ [newline])],
              status = Some (OSError ''exit status 2'')\<rparr>"
  have a: "os_StartProcess example_world (inherited_invocation ''/src'' ''make'' [] example_world) =
     Started ?p"
    by (simp add: example_defs)
  have c: "\<forall>h x. respond log_sink h x = (length x, None)"
    by (simp add: log_sink_def)
  note t = LoggedExecuteInDir_tee [of "''/src''" log_sink "''make''" "[]" example_world ?p]
  have 1: "calls (fst (snd (LoggedExecuteInDir ''/src'' log_sink ''make'' [] example_world))) =
        calls log_sink @ delivered log_sink (map snd (emits ?p))"
    and 2: "written (fst (snd (LoggedExecuteInDir ''/src'' log_sink ''make'' [] example_world))) =
        written log_sink @ fst (fst (LoggedExecuteInDir ''/src'' log_sink ''make'' [] example_world))"
    and 3: "fst (fst (LoggedExecuteInDir ''/src'' log_sink ''make'' [] example_world)) = output_of ?p"
    using t a c by blast+
  show ?thesis
    using a c by (simp add: 1 2 3 output_of_def takes_def sink_Write_def) (simp add: log_sink_def)
qed

subsection \<open>C9: the split is literal\<close>

text \<open>
  Claim C9 says that the empty parts of a command string with doubled, leading or
  trailing spaces are passed as empty arguments to the process. With a leading space
  that is not so: the first part is empty, and the first part is the program name, a
  name that cannot be started; no process gets anything.
\<close>

theorem ExecuteString_leading_space_counterexample:
  "strings_Split '' echo hi'' (CHR '' '') = [[], ''echo'', ''hi''] \<and>
   ExecuteString '' echo hi'' example_world =
     (([], Some (WrapError ''error: could not start process: exec: no command, output: ''
                   (WrapError ''could not start process: exec: no command''
                      (OSError ''exec: no command'')))),
      example_world\<lparr>attempts :=
        [\<lparr>program = [], argv = [[], ''echo'', ''hi''], workdir = [],
          environ = [''PATH=/bin'', ''MY_VAR=some_value'', ''HOME=/tmp'']\<rparr>]\<rparr>)"
  by (simp add: ExecuteString_eq Split_Nil Split_Cons Execute_def ExecuteInDir_eq
      ExecuteString_return_def example_defs)

text \<open>
  Claim C9, amended: the command string is split at every single space, nothing is
  trimmed, merged or dropped: a leading space gives an empty first part, a trailing
  space an empty last part, two spaces in a row an empty part between them, and there is
  one part more than there are spaces. ExecuteString starts the program that the first
  part names with all the parts as its argument vector, so the parts after the first,
  empty ones included, are its arguments as they stand, and what ExecuteString returns
  is what that start and that process give. With a leading space the empty first part is
  the program name: when its start fails, as the start of the empty name does,
  ExecuteString returns no output and the start error, wrapped twice.
\<close>

theorem ExecuteString_splits_literally:
  "strings_Split [] (CHR '' '') = [[]] \<and>
   strings_Split (a @ CHR '' '' # b) (CHR '' '') =
     strings_Split a (CHR '' '') @ strings_Split b (CHR '' '') \<and>
   strings_Split (CHR '' '' # b) (CHR '' '') = [] # strings_Split b (CHR '' '') \<and>
   strings_Split (a @ '' '') (CHR '' '') = strings_Split a (CHR '' '') @ [[]] \<and>
   strings_Split (a @ ''  '' @ b) (CHR '' '') =
     strings_Split a (CHR '' '') @ [] # strings_Split b (CHR '' '') \<and>
   length (strings_Split command (CHR '' '')) = Suc (length (filter (\<lambda>c. c = CHR '' '') command)) \<and>
   ExecuteString command w =
     ExecuteString_return
       (case os_StartProcess w
               \<lparr>program = hd (strings_Split command (CHR '' '')),
                argv = strings_Split command (CHR '' ''), workdir = [],
                environ = dedupEnv (os_Environ w @ GoEnviron w)\<rparr> of
          StartError e \<Rightarrow>
            (([], Some (WrapError (''could not start process: '' @ Error e) e)),
             attempted \<lparr>program = hd (strings_Split command (CHR '' '')),
                        argv = strings_Split command (CHR '' ''), workdir = [],
                        environ = dedupEnv (os_Environ w @ GoEnviron w)\<rparr> w)
        | Started p \<Rightarrow>
            ((output_of p,
              case status p of
                None \<Rightarrow> None
              | Some e \<Rightarrow>
                  Some (WrapError (''process error: '' @ Error e @ [newline] @ ''output: '' @ output_of p) e)),
             attempted \<lparr>program = hd (strings_Split command (CHR '' '')),
                        argv = strings_Split command (CHR '' ''), workdir = [],
                        environ = dedupEnv (os_Environ w @ GoEnviron w)\<rparr> w)) \<and>
   (os_StartProcess w
      \<lparr>program = [], argv = [] # strings_Split b (CHR '' ''), workdir = [],
       environ = dedupEnv (os_Environ w @ GoEnviron w)\<rparr> = StartError e \<longrightarrow>
    ExecuteString (CHR '' '' # b) w =
      (([], Some (WrapError (''error: could not start process: '' @ Error e @ '', output: '')
                    (WrapError (''could not start process: '' @ Error e) e))),
       attempted \<lparr>program = [], argv = [] # strings_Split b (CHR '' ''), workdir = [],
                  environ = dedupEnv (os_Environ w @ GoEnviron w)\<rparr> w))"
proof (intro conjI)
  show "strings_Split [] (CHR '' '') = [[]]"
    by (rule Split_Nil)
  show "strings_Split (a @ CHR '' '' # b) (CHR '' '') =
      strings_Split a (CHR '' '') @ strings_Split b (CHR '' '')"
    by (rule Split_append)
  show lead: "strings_Split (CHR '' '' # b) (CHR '' '') = [] # strings_Split b (CHR '' '')" for b
    by (simp add: Split_Cons)
  show "strings_Split (a @ '' '') (CHR '' '') = strings_Split a (CHR '' '') @ [[]]"
    using Split_append [of a "CHR '' ''" "[]"] by (simp add: Split_Nil)
  show "strings_Split (a @ ''  '' @ b) (CHR '' '') =
      strings_Split a (CHR '' '') @ [] # strings_Split b (CHR '' '')"
    using Split_append [of a "CHR '' ''" "CHR '' '' # b"] by (simp add: lead)
  show "length (strings_Split command (CHR '' '')) =
      Suc (length (filter (\<lambda>c. c = CHR '' '') command))"
    by (rule Split_length)
  have parts: "hd (strings_Split c (CHR '' '')) # tl (strings_Split c (CHR '' '')) =
      strings_Split c (CHR '' '')" for c
    by (simp add: Split_not_Nil)
  have i: "ExecuteInDir_invocation [] (hd (strings_Split c (CHR '' ''))) (tl (strings_Split c (CHR '' ''))) w =
      \<lparr>program = hd (strings_Split c (CHR '' '')), argv = strings_Split c (CHR '' ''), workdir = [],
       environ = dedupEnv (os_Environ w @ GoEnviron w)\<rparr>" for c
    by (simp add: ExecuteInDir_invocation_def parts)
  show run: "ExecuteString c w =
     ExecuteString_return
       (case os_StartProcess w
               \<lparr>program = hd (strings_Split c (CHR '' '')),
                argv = strings_Split c (CHR '' ''), workdir = [],
                environ = dedupEnv (os_Environ w @ GoEnviron w)\<rparr> of
          StartError e \<Rightarrow>
            (([], Some (WrapError (''could not start process: '' @ Error e) e)),
             attempted \<lparr>program = hd (strings_Split c (CHR '' '')),
                        argv = strings_Split c (CHR '' ''), workdir = [],
                        environ = dedupEnv (os_Environ w @ GoEnviron w)\<rparr> w)
        | Started p \<Rightarrow>
            ((output_of p,
              case status p of
                None \<Rightarrow> None
              | Some e \<Rightarrow>
                  Some (WrapError (''process error: '' @ Error e @ [newline] @ ''output: '' @ output_of p) e)),
             attempted \<lparr>program = hd (strings_Split c (CHR '' '')),
                        argv = strings_Split c (CHR '' ''), workdir = [],
                        environ = dedupEnv (os_Environ w @ GoEnviron w)\<rparr> w))" for c
    unfolding ExecuteString_eq Execute_def ExecuteInDir_eq i by (rule refl)
  show "os_StartProcess w
      \<lparr>program = [], argv = [] # strings_Split b (CHR '' ''), workdir = [],
       environ = dedupEnv (os_Environ w @ GoEnviron w)\<rparr> = StartError e \<longrightarrow>
    ExecuteString (CHR '' '' # b) w =
      (([], Some (WrapError (''error: could not start process: '' @ Error e @ '', output: '')
                    (WrapError (''could not start process: '' @ Error e) e))),
       attempted \<lparr>program = [], argv = [] # strings_Split b (CHR '' ''), workdir = [],
                  environ = dedupEnv (os_Environ w @ GoEnviron w)\<rparr> w)"
    by (simp add: run [of "CHR '' '' # b"] lead ExecuteString_return_def)
qed

theorem ExecuteString_splits_literally_witness:
  "strings_Split ''echo  hi '' (CHR '' '') = [''echo'', [], ''hi'', []] \<and>
   length (strings_Split ''echo  hi '' (CHR '' '')) = 4 \<and>
   os_StartProcess example_world
     \<lparr>program = ''echo'', argv = [''echo'', [], ''hi'', []], workdir = [],
      environ = dedupEnv (os_Environ example_world @ GoEnviron example_world)\<rparr> =
     Started \<lparr>emits = [(fd_stdout, '' hi '' @ [newline])], status = None\<rparr> \<and>
   fst (ExecuteString ''echo  hi '' example_world) = ('' hi '' @ [newline], None) \<and>
   fst (ExecuteString ''echo hi'' example_world) = (''hi'' @ [newline], None) \<and>
   os_StartProcess example_world
     \<lparr>program = [], argv = [] # strings_Split ''echo'' (CHR '' ''), workdir = [],
      environ = dedupEnv (os_Environ example_world @ GoEnviron example_world)\<rparr> =
     StartError (OSError ''exec: no command'') \<and>
   fst (ExecuteString '' echo'' example_world) =
     ([], Some (WrapError ''error: could not start process: exec: no command, output: ''
                  (WrapError ''could not start process: exec: no command''
                     (OSError ''exec: no command''))))"
proof -
  have s: "strings_Split ''echo  hi '' (CHR '' '') = [''echo'', [], ''hi'', []]"
    "strings_Split ''echo hi'' (CHR '' '') = [''echo'', ''hi'']"
    "strings_Split ''echo'' (CHR '' '') = [''echo'']"
    by (simp_all add: Split_Nil Split_Cons)
  note t = ExecuteString_splits_literally [of "[]" "''echo''" "''echo  hi ''" example_world
      "OSError ''exec: no command''"]
  note u = ExecuteString_splits_literally [of "[]" "''echo''" "''echo hi''" example_world
      "OSError ''exec: no command''"]
  have o: "os_StartProcess example_world
     \<lparr>program = ''echo'', argv = [''echo'', [], ''hi'', []], workdir = [],
      environ = dedupEnv (os_Environ example_world @ GoEnviron example_world)\<rparr> =
     Started \<lparr>emits = [(fd_stdout, '' hi '' @ [newline])], status = None\<rparr>"
    by (simp add: example_defs)
  have o': "os_StartProcess example_world
     \<lparr>program = ''echo'', argv = [''echo'', ''hi''], workdir = [],
      environ = dedupEnv (os_Environ example_world @ GoEnviron example_world)\<rparr> =
     Started \<lparr>emits = [(fd_stdout, ''hi'' @ [newline])], status = None\<rparr>"
    by (simp add: example_defs)
  have n: "os_StartProcess example_world
     \<lparr>program = [], argv = [] # strings_Split ''echo'' (CHR '' ''), workdir = [],
      environ = dedupEnv (os_Environ example_world @ GoEnviron example_world)\<rparr> =
     StartError (OSError ''exec: no command'')"
    by (simp add: example_defs)
  have 1: "ExecuteString ''echo  hi '' example_world =
     ExecuteString_return
       ((output_of \<lparr>emits = [(fd_stdout, '' hi '' @ [newline])], status = None\<rparr>, None),
        attempted \<lparr>program = ''echo'', argv = [''echo'', [], ''hi'', []], workdir = [],
          environ = dedupEnv (os_Environ example_world @ GoEnviron example_world)\<rparr> example_world)"
    using t [THEN conjunct2, THEN conjunct2, THEN conjunct2, THEN conjunct2, THEN conjunct2,
        THEN conjunct2, THEN conjunct1]
    by (simp add: s o)
  have 2: "ExecuteString ''echo hi'' example_world =
     ExecuteString_return
       ((output_of \<lparr>emits = [(fd_stdout, ''hi'' @ [newline])], status = None\<rparr>, None),
        attempted \<lparr>program = ''echo'', argv = [''echo'', ''hi''], workdir = [],
          environ = dedupEnv (os_Environ example_world @ GoEnviron example_world)\<rparr> example_world)"
    using u [THEN conjunct2, THEN conjunct2, THEN conjunct2, THEN conjunct2, THEN conjunct2,
        THEN conjunct2, THEN conjunct1]
    by (simp add: s o')
  have 3: "ExecuteString '' echo'' example_world =
      (([], Some (WrapError (''error: could not start process: '' @ Error (OSError ''exec: no command'') @ '', output: '')
                    (WrapError (''could not start process: '' @ Error (OSError ''exec: no command''))
                       (OSError ''exec: no command'')))),
       attempted \<lparr>program = [], argv = [] # strings_Split ''echo'' (CHR '' ''), workdir = [],
                  environ = dedupEnv (os_Environ example_world @ GoEnviron example_world)\<rparr> example_world)"
    using t [THEN conjunct2, THEN conjunct2, THEN conjunct2, THEN conjunct2, THEN conjunct2,
        THEN conjunct2, THEN conjunct2] n
    by blast
  show ?thesis
    unfolding 1 2 3 using o n by (simp add: s ExecuteString_return_def output_of_def)
qed

subsection \<open>C10: ExecuteString always reaches Execute\<close>

text \<open>
  Claim C10: the split of any string, the empty string included, has at least one part,
  so ExecuteString never takes the branch that returns the invalid-command error: every
  call goes to Execute with the first part as the program, and \<open>Start\<close> is called
  once.
\<close>

theorem ExecuteString_always_executes:
  "1 \<le> length (strings_Split command (CHR '' '')) \<and>
   ExecuteString_parts command (strings_Split command (CHR '' '')) w =
     ExecuteString_return
       (Execute (hd (strings_Split command (CHR '' ''))) (tl (strings_Split command (CHR '' ''))) w) \<and>
   ExecuteString command w =
     ExecuteString_return
       (Execute (hd (strings_Split command (CHR '' ''))) (tl (strings_Split command (CHR '' ''))) w) \<and>
   snd (fst (ExecuteString command w)) \<noteq>
     Some (ErrorString (''invalid command to run '' @ [quote] @ command @ [quote])) \<and>
   length (attempts (snd (ExecuteString command w))) = Suc (length (attempts w))"
proof -
  have "ExecuteString_parts command (strings_Split command (CHR '' '')) w = ExecuteString command w"
    by (simp add: ExecuteString_def)
  then show ?thesis
    by (simp add: Split_length ExecuteString_eq ExecuteString_return_simps
        ExecuteString_return_not_ErrorString Execute_def ExecuteInDir_world attempted_def)
qed

theorem ExecuteString_always_executes_witness:
  "strings_Split [] (CHR '' '') = [[]] \<and>
   ExecuteString [] example_world = ExecuteString_return (Execute [] [] example_world) \<and>
   ExecuteString [] example_world =
     (([], Some (WrapError ''error: could not start process: exec: no command, output: ''
                   (WrapError ''could not start process: exec: no command''
                      (OSError ''exec: no command'')))),
      example_world\<lparr>attempts :=
        [\<lparr>program = [], argv = [[]], workdir = [],
          environ = [''PATH=/bin'', ''MY_VAR=some_value'', ''HOME=/tmp'']\<rparr>]\<rparr>)"
proof -
  have e: "Execute [] [] example_world =
     (([], Some (WrapError ''could not start process: exec: no command''
                      (OSError ''exec: no command''))),
      example_world\<lparr>attempts :=
        [\<lparr>program = [], argv = [[]], workdir = [],
          environ = [''PATH=/bin'', ''MY_VAR=some_value'', ''HOME=/tmp'']\<rparr>]\<rparr>)"
    by (simp add: Execute_def ExecuteInDir_eq example_defs)
  have x: "ExecuteString [] example_world = ExecuteString_return (Execute [] [] example_world)"
    using ExecuteString_always_executes [of "[]" example_world] by (simp add: Split_Nil)
  show ?thesis
    unfolding x e by (simp add: Split_Nil ExecuteString_return_def)
qed

end
